theory Spec2Isabelle
  imports Main
begin

section \<open>Status values and the outcome of a SerDes call\<close>

text \<open>
  The SerDes methods of \<^verbatim>\<open>io_callable_program_serdes.cc\<close> return
  \<^verbatim>\<open>absl::StatusOr<T>\<close>. The only status the file constructs itself is
  \<^verbatim>\<open>absl::InvalidArgumentError(message)\<close>, which is what the specification calls
  MalformedPayload; every other status is propagated from a collaborator by
  \<^verbatim>\<open>TF_ASSIGN_OR_RETURN\<close>. \<open>UnresolvedDevice\<close> is the status of a device id
  that has no resolution (its producer is modelled in the section on devices below);
  \<open>OtherStatus\<close> stands for any other status of a collaborator.
\<close>

datatype Status =
    InvalidArgumentError string
  | UnresolvedDevice int
  | OtherStatus string

type_synonym 'a StatusOr = "Status + 'a"

text \<open>
  \<^verbatim>\<open>llvm::cast<T>(p)\<close> checks the class of \<open>p\<close> with an \<^verbatim>\<open>assert\<close> and
  returns no status. In a build with assertions a failed assertion ends the call before
  anything else happens: that outcome is kept apart from every returned
  \<^verbatim>\<open>StatusOr\<close>. A build with \<^verbatim>\<open>NDEBUG\<close> compiles the assertion out; it differs
  from the build with assertions only where the assertion fails, and has a model of its
  own below (\<open>IoCallableProgramSerDes_Deserialize_build\<close>).
\<close>

datatype 'a outcome =
    CastAssertionFailed
  | Returned "'a StatusOr"

section \<open>Serializable values and deserialize options\<close>

text \<open>
  \<^verbatim>\<open>IoCallableProgram\<close>: type, name, serialized program text, device list, input and
  output array specs. The device list type \<open>'dl\<close> and the array spec type \<open>'as\<close> are
  declared in headers outside this translation unit and stay parameters here.
\<close>

record ('dl, 'as) IoCallableProgram =
  type :: string
  name :: string
  serialized_program_text :: string
  devices :: 'dl
  input_specs :: "'as list"
  output_specs :: "'as list"

datatype IoCallableCompileOptions = IoCallableCompileOptions

text \<open>
  \<^verbatim>\<open>Serializable\<close> and \<^verbatim>\<open>DeserializeOptions\<close> are open class hierarchies with
  LLVM-style RTTI. The two serializable classes of this file and the one options class
  it casts to are constructors of their own; every other subclass is \<open>Other\<dots>\<close> with
  its class name. \<open>'lk\<close> is the type of the \<^verbatim>\<open>lookup_device\<close> member.
\<close>

datatype ('dl, 'as) Serializable =
    ProgramSerializable "('dl, 'as) IoCallableProgram"
  | CompileOptionsSerializable IoCallableCompileOptions
  | OtherSerializable string

datatype 'lk DeserializeOptions =
    DeserializeProgramOptions (lookup_device: 'lk)
  | OtherDeserializeOptions string

text \<open>
  \<^verbatim>\<open>std::unique_ptr<DeserializeOptions> options\<close> may be null: \<open>None\<close>.
  The assertion of \<^verbatim>\<open>llvm::cast<DeserializeProgramOptions>(options.get())\<close> holds
  for a non-null pointer to a \<^verbatim>\<open>DeserializeProgramOptions\<close> only.
\<close>

fun cast_DeserializeProgramOptions ::
  "'lk DeserializeOptions option \<Rightarrow> 'lk DeserializeOptions option" where
  "cast_DeserializeProgramOptions (Some (DeserializeProgramOptions lk)) =
     Some (DeserializeProgramOptions lk)"
| "cast_DeserializeProgramOptions _ = None"

fun cast_IoCallableProgram ::
  "('dl, 'as) Serializable \<Rightarrow> ('dl, 'as) IoCallableProgram option" where
  "cast_IoCallableProgram (ProgramSerializable program) = Some program"
| "cast_IoCallableProgram _ = None"

section \<open>\<^verbatim>\<open>IoCallableCompileOptionsSerDes\<close>\<close>

definition IoCallableCompileOptionsSerDes_type_name :: string where
  "IoCallableCompileOptionsSerDes_type_name = ''xla::ifrt::IoCallableCompileOptions''"

text \<open>\<^verbatim>\<open>Serialize\<close> returns the empty string and never looks at its argument.\<close>

definition IoCallableCompileOptionsSerDes_Serialize ::
  "('dl, 'as) Serializable \<Rightarrow> string outcome" where
  "IoCallableCompileOptionsSerDes_Serialize serializable = Returned (Inr [])"

text \<open>
  \<^verbatim>\<open>Deserialize\<close> tests \<^verbatim>\<open>serialized.empty()\<close> and never looks at \<^verbatim>\<open>options\<close>.
\<close>

definition IoCallableCompileOptionsSerDes_Deserialize ::
  "string \<Rightarrow> 'lk DeserializeOptions option \<Rightarrow> IoCallableCompileOptions outcome" where
  "IoCallableCompileOptionsSerDes_Deserialize serialized options =
     (if serialized \<noteq> [] then
        Returned (Inl (InvalidArgumentError
          (''Invalid serialized IoCallableCompileOptions; a serialized '' @
           ''IoCallableCompileOptions is expected to be an empty string'')))
      else Returned (Inr IoCallableCompileOptions))"

section \<open>\<^verbatim>\<open>IoCallableProgramSerDes\<close>\<close>

definition IoCallableProgramSerDes_type_name :: string where
  "IoCallableProgramSerDes_type_name = ''xla::ifrt::IoCallableProgram''"

text \<open>
  \<^verbatim>\<open>IoCallableProgramProto\<close>, the message \<^verbatim>\<open>Serialize\<close> fills and
  \<^verbatim>\<open>Deserialize\<close> reads: \<^verbatim>\<open>type\<close>, \<^verbatim>\<open>name\<close>,
  \<^verbatim>\<open>serialized_program_text\<close>, \<^verbatim>\<open>devices\<close> and the repeated fields
  \<^verbatim>\<open>input_specs\<close> and \<^verbatim>\<open>output_specs\<close>. \<open>'dlp\<close> and \<open>'asp\<close> are the
  message types of a device list and of an array spec.
\<close>

record ('dlp, 'asp) IoCallableProgramProto =
  proto_type :: string
  proto_name :: string
  proto_serialized_program_text :: string
  proto_devices :: 'dlp
  proto_input_specs :: "'asp list"
  proto_output_specs :: "'asp list"

text \<open>
  The four loops of the file have one shape: convert each element with a fallible
  function, return the first status that is not OK at once
  (\<^verbatim>\<open>TF_ASSIGN_OR_RETURN\<close>), otherwise append the converted element to the target
  (\<^verbatim>\<open>add_input_specs\<close>, \<^verbatim>\<open>push_back\<close>).
\<close>

fun assign_or_return_each ::
  "('a \<Rightarrow> 'b StatusOr) \<Rightarrow> 'b list \<Rightarrow> 'a list \<Rightarrow> 'b list StatusOr" where
  "assign_or_return_each f target [] = Inr target"
| "assign_or_return_each f target (x # xs) =
     (case f x of
        Inl st \<Rightarrow> Inl st
      | Inr y \<Rightarrow> assign_or_return_each f (target @ [y]) xs)"

text \<open>
  \<^verbatim>\<open>Serialize\<close>. Its collaborators are parameters: \<open>SerializeAsString\<close> (the generated
  protobuf writer), \<open>DeviceList_ToProto\<close> and the fallible \<open>ArraySpec_ToProto\<close>.
\<close>

definition IoCallableProgramSerDes_Serialize ::
  "(('dlp, 'asp) IoCallableProgramProto \<Rightarrow> string) \<Rightarrow> ('dl \<Rightarrow> 'dlp) \<Rightarrow>
   ('as \<Rightarrow> 'asp StatusOr) \<Rightarrow> ('dl, 'as) Serializable \<Rightarrow> string outcome" where
  "IoCallableProgramSerDes_Serialize SerializeAsString DeviceList_ToProto ArraySpec_ToProto
     serializable =
     (case cast_IoCallableProgram serializable of
        None \<Rightarrow> CastAssertionFailed
      | Some program \<Rightarrow> Returned
         (case assign_or_return_each ArraySpec_ToProto [] (input_specs program) of
            Inl st \<Rightarrow> Inl st
          | Inr ins \<Rightarrow>
             (case assign_or_return_each ArraySpec_ToProto [] (output_specs program) of
                Inl st \<Rightarrow> Inl st
              | Inr outs \<Rightarrow> Inr (SerializeAsString
                  \<lparr>proto_type = type program,
                   proto_name = name program,
                   proto_serialized_program_text = serialized_program_text program,
                   proto_devices = DeviceList_ToProto (devices program),
                   proto_input_specs = ins,
                   proto_output_specs = outs\<rparr>))))"

text \<open>
  \<^verbatim>\<open>Deserialize\<close> in a build with assertions: the assertion of the options cast
  comes first, then the parse (\<open>ParseFromString\<close> is \<open>None\<close> where the generated
  parser returns false), the device list, the input specs and the output specs, each with
  \<^verbatim>\<open>options->lookup_device\<close>. Called with a \<^verbatim>\<open>DeserializeProgramOptions\<close>,
  every build does the same.
\<close>

definition IoCallableProgramSerDes_Deserialize ::
  "(string \<Rightarrow> ('dlp, 'asp) IoCallableProgramProto option) \<Rightarrow>
   ('lk \<Rightarrow> 'dlp \<Rightarrow> 'dl StatusOr) \<Rightarrow> ('lk \<Rightarrow> 'asp \<Rightarrow> 'as StatusOr) \<Rightarrow>
   string \<Rightarrow> 'lk DeserializeOptions option \<Rightarrow> ('dl, 'as) IoCallableProgram outcome" where
  "IoCallableProgramSerDes_Deserialize ParseFromString DeviceList_FromProto
     ArraySpec_FromProto serialized options =
     (case cast_DeserializeProgramOptions options of
        None \<Rightarrow> CastAssertionFailed
      | Some deserialize_program_options \<Rightarrow> Returned
         (case ParseFromString serialized of
            None \<Rightarrow> Inl (InvalidArgumentError
                     ''Failed to parse serialized IoCallableProgramProto'')
          | Some proto \<Rightarrow>
             (case DeviceList_FromProto (lookup_device deserialize_program_options)
                     (proto_devices proto) of
                Inl st \<Rightarrow> Inl st
              | Inr devs \<Rightarrow>
                 (case assign_or_return_each
                         (ArraySpec_FromProto (lookup_device deserialize_program_options))
                         [] (proto_input_specs proto) of
                    Inl st \<Rightarrow> Inl st
                  | Inr ins \<Rightarrow>
                     (case assign_or_return_each
                             (ArraySpec_FromProto
                                (lookup_device deserialize_program_options))
                             [] (proto_output_specs proto) of
                        Inl st \<Rightarrow> Inl st
                      | Inr outs \<Rightarrow> Inr
                          \<lparr>type = proto_type proto,
                           name = proto_name proto,
                           serialized_program_text = proto_serialized_program_text proto,
                           devices = devs,
                           input_specs = ins,
                           output_specs = outs\<rparr>)))))"

text \<open>
  \<^verbatim>\<open>Deserialize\<close> in either build. With \<^verbatim>\<open>NDEBUG\<close> the cast is a pointer
  conversion that checks nothing (a null pointer stays null), and the pointer is not
  used before the parse: bytes that do not parse return the invalid-argument status
  whatever the options are. After a successful parse line 80 reads
  \<^verbatim>\<open>deserialize_program_options->lookup_device\<close>; through a null pointer or a pointer
  to an object of another class that read has no defined behaviour.
\<close>

datatype build = Assertions | NDEBUG

datatype 'a build_outcome =
    AssertionFailed
  | InvalidPointerRead
  | Returns "'a StatusOr"

definition IoCallableProgramSerDes_Deserialize_build ::
  "build \<Rightarrow> (string \<Rightarrow> ('dlp, 'asp) IoCallableProgramProto option) \<Rightarrow>
   ('lk \<Rightarrow> 'dlp \<Rightarrow> 'dl StatusOr) \<Rightarrow> ('lk \<Rightarrow> 'asp \<Rightarrow> 'as StatusOr) \<Rightarrow>
   string \<Rightarrow> 'lk DeserializeOptions option \<Rightarrow>
   ('dl, 'as) IoCallableProgram build_outcome" where
  "IoCallableProgramSerDes_Deserialize_build build ParseFromString DeviceList_FromProto
     ArraySpec_FromProto serialized options =
     (if build = Assertions \<and> cast_DeserializeProgramOptions options = None
      then AssertionFailed
      else
        (case ParseFromString serialized of
           None \<Rightarrow> Returns (Inl (InvalidArgumentError
                    ''Failed to parse serialized IoCallableProgramProto''))
         | Some proto \<Rightarrow>
            (case cast_DeserializeProgramOptions options of
               None \<Rightarrow> InvalidPointerRead
             | Some deserialize_program_options \<Rightarrow> Returns
                (case DeviceList_FromProto (lookup_device deserialize_program_options)
                        (proto_devices proto) of
                   Inl st \<Rightarrow> Inl st
                 | Inr devs \<Rightarrow>
                    (case assign_or_return_each
                            (ArraySpec_FromProto
                               (lookup_device deserialize_program_options))
                            [] (proto_input_specs proto) of
                       Inl st \<Rightarrow> Inl st
                     | Inr ins \<Rightarrow>
                        (case assign_or_return_each
                                (ArraySpec_FromProto
                                   (lookup_device deserialize_program_options))
                                [] (proto_output_specs proto) of
                           Inl st \<Rightarrow> Inl st
                         | Inr outs \<Rightarrow> Inr
                             \<lparr>type = proto_type proto,
                              name = proto_name proto,
                              serialized_program_text =
                                proto_serialized_program_text proto,
                              devices = devs,
                              input_specs = ins,
                              output_specs = outs\<rparr>))))))"

section \<open>Devices, device lists and array specs\<close>

text \<open>
  Modelled from the spec: the device handle and the device-resolution capability.
  The header \<^verbatim>\<open>device.h\<close> is missing. A handle stands for one live
  device object: its logical id and the identity of the object (two clients own two
  objects for one id). The capability is a function from a logical device id to a handle;
  \<open>None\<close> is an id with no resolution.
\<close>

type_synonym DeviceId = int

datatype Device = Device (Id: DeviceId) (Address: nat)

type_synonym LookupDeviceFunc = "DeviceId \<Rightarrow> Device option"

text \<open>
  Modelled from the spec: the device list of a program and its message
  (\<^verbatim>\<open>DeviceList\<close>, \<^verbatim>\<open>DeviceListProto\<close>; their sources are missing). The message
  holds the logical ids in the order of the list.
\<close>

type_synonym DeviceList = "Device list"

datatype DeviceListProto = DeviceListProto (device_ids: "DeviceId list")

definition DeviceList_ToProto :: "DeviceList \<Rightarrow> DeviceListProto" where
  "DeviceList_ToProto device_list = DeviceListProto (map Id device_list)"

text \<open>
  Modelled from the spec: resolving one encoded device id with the capability. An id with
  no resolution produces \<open>UnresolvedDevice\<close>, never a null or garbage handle.
\<close>

definition resolve_device :: "LookupDeviceFunc \<Rightarrow> DeviceId \<Rightarrow> Device StatusOr" where
  "resolve_device lookup device_id =
     (case lookup device_id of
        None \<Rightarrow> Inl (UnresolvedDevice device_id)
      | Some device \<Rightarrow> Inr device)"

text \<open>
  Modelled from the spec: \<^verbatim>\<open>DeviceList::FromProto\<close> (its source is missing). It
  resolves the encoded ids in order and fails with the first id that has no resolution.
\<close>

definition DeviceList_FromProto ::
  "LookupDeviceFunc \<Rightarrow> DeviceListProto \<Rightarrow> DeviceList StatusOr" where
  "DeviceList_FromProto lookup proto =
     assign_or_return_each (resolve_device lookup) [] (device_ids proto)"

text \<open>
  Modelled from the spec: an array spec is a shape, an element type and a sharding or
  device assignment (\<^verbatim>\<open>ArraySpec\<close>, \<^verbatim>\<open>ArraySpecProto\<close>; their sources are
  missing). The message is the nested encoding of the three parts, the device assignment
  as logical ids.
\<close>

record ArraySpec =
  dtype :: string
  shape :: "int list"
  sharding :: DeviceList

record ArraySpecProto =
  proto_dtype :: string
  proto_shape :: "int list"
  proto_sharding :: DeviceListProto

text \<open>
  Modelled from the spec: \<^verbatim>\<open>ArraySpec::ToProto\<close> and \<^verbatim>\<open>ArraySpec::FromProto\<close>
  (their sources are missing). The second reconstructs the spec with the same
  device-resolution capability as the device list.
\<close>

definition ArraySpec_ToProto :: "ArraySpec \<Rightarrow> ArraySpecProto StatusOr" where
  "ArraySpec_ToProto spec =
     Inr \<lparr>proto_dtype = dtype spec, proto_shape = shape spec,
          proto_sharding = DeviceList_ToProto (sharding spec)\<rparr>"

definition ArraySpec_FromProto ::
  "LookupDeviceFunc \<Rightarrow> ArraySpecProto \<Rightarrow> ArraySpec StatusOr" where
  "ArraySpec_FromProto lookup proto =
     (case DeviceList_FromProto lookup (proto_sharding proto) of
        Inl st \<Rightarrow> Inl st
      | Inr device_list \<Rightarrow>
          Inr \<lparr>dtype = proto_dtype proto, shape = proto_shape proto,
               sharding = device_list\<rparr>)"

text \<open>
  The logical device ids a program message refers to: those of its device list and those
  of every input and output spec.
\<close>

definition referenced_device_ids ::
  "(DeviceListProto, ArraySpecProto) IoCallableProgramProto \<Rightarrow> DeviceId set" where
  "referenced_device_ids proto =
     set (device_ids (proto_devices proto))
     \<union> (\<Union>spec \<in> set (proto_input_specs proto) \<union> set (proto_output_specs proto).
          set (device_ids (proto_sharding spec)))"

section \<open>A wire format\<close>

text \<open>
  Modelled from the spec: the structured wire schema. The protobuf code generated for
  \<^verbatim>\<open>IoCallableProgramProto\<close> is missing, and the SerDes above takes the writer and
  the parser as parameters. The following writer and parser are one instance of them, for
  running the SerDes on concrete bytes: numbers are base-128 varints (signed ones
  zigzag-coded first), a string or a repeated field carries its length first, and the
  fields of a message follow each other in the order in which \<^verbatim>\<open>Serialize\<close> sets
  them.
\<close>

fun write_varint :: "nat \<Rightarrow> string" where
  "write_varint n =
     (if n < 128 then [char_of n]
      else char_of (128 + n mod 128) # write_varint (n div 128))"

declare write_varint.simps [simp del]

fun read_varint :: "string \<Rightarrow> (nat \<times> string) option" where
  "read_varint [] = None"
| "read_varint (c # cs) =
     (if (of_char c :: nat) < 128 then Some (of_char c, cs)
      else (case read_varint cs of
              None \<Rightarrow> None
            | Some (n, rest) \<Rightarrow> Some (of_char c - 128 + 128 * n, rest)))"

definition write_int :: "int \<Rightarrow> string" where
  "write_int i = write_varint (if 0 \<le> i then 2 * nat i else 2 * nat (- i) - 1)"

definition read_int :: "string \<Rightarrow> (int \<times> string) option" where
  "read_int s =
     (case read_varint s of
        None \<Rightarrow> None
      | Some (n, rest) \<Rightarrow>
          Some (if even n then int (n div 2) else - int ((n + 1) div 2), rest))"

definition write_string :: "string \<Rightarrow> string" where
  "write_string s = write_varint (length s) @ s"

definition read_string :: "string \<Rightarrow> (string \<times> string) option" where
  "read_string s =
     (case read_varint s of
        None \<Rightarrow> None
      | Some (n, rest) \<Rightarrow>
          (if length rest < n then None else Some (take n rest, drop n rest)))"

definition write_repeated :: "('a \<Rightarrow> string) \<Rightarrow> 'a list \<Rightarrow> string" where
  "write_repeated write_one xs = write_varint (length xs) @ concat (map write_one xs)"

fun read_n ::
  "(string \<Rightarrow> ('a \<times> string) option) \<Rightarrow> nat \<Rightarrow> string \<Rightarrow> ('a list \<times> string) option" where
  "read_n read_one 0 s = Some ([], s)"
| "read_n read_one (Suc n) s =
     (case read_one s of
        None \<Rightarrow> None
      | Some (x, rest) \<Rightarrow>
          (case read_n read_one n rest of
             None \<Rightarrow> None
           | Some (xs, rest') \<Rightarrow> Some (x # xs, rest')))"

definition read_repeated ::
  "(string \<Rightarrow> ('a \<times> string) option) \<Rightarrow> string \<Rightarrow> ('a list \<times> string) option" where
  "read_repeated read_one s =
     (case read_varint s of
        None \<Rightarrow> None
      | Some (n, rest) \<Rightarrow> read_n read_one n rest)"

definition write_DeviceListProto :: "DeviceListProto \<Rightarrow> string" where
  "write_DeviceListProto proto = write_repeated write_int (device_ids proto)"

definition read_DeviceListProto :: "string \<Rightarrow> (DeviceListProto \<times> string) option" where
  "read_DeviceListProto s =
     (case read_repeated read_int s of
        None \<Rightarrow> None
      | Some (ids, rest) \<Rightarrow> Some (DeviceListProto ids, rest))"

definition write_ArraySpecProto :: "ArraySpecProto \<Rightarrow> string" where
  "write_ArraySpecProto proto =
     write_string (proto_dtype proto) @ write_repeated write_int (proto_shape proto)
     @ write_DeviceListProto (proto_sharding proto)"

definition read_ArraySpecProto :: "string \<Rightarrow> (ArraySpecProto \<times> string) option" where
  "read_ArraySpecProto s =
     (case read_string s of
        None \<Rightarrow> None
      | Some (dt, s1) \<Rightarrow>
     (case read_repeated read_int s1 of
        None \<Rightarrow> None
      | Some (sh, s2) \<Rightarrow>
     (case read_DeviceListProto s2 of
        None \<Rightarrow> None
      | Some (ds, rest) \<Rightarrow>
          Some (\<lparr>proto_dtype = dt, proto_shape = sh, proto_sharding = ds\<rparr>, rest))))"

definition SerializeAsString ::
  "(DeviceListProto, ArraySpecProto) IoCallableProgramProto \<Rightarrow> string" where
  "SerializeAsString proto =
     write_string (proto_type proto) @ write_string (proto_name proto)
     @ write_string (proto_serialized_program_text proto)
     @ write_DeviceListProto (proto_devices proto)
     @ write_repeated write_ArraySpecProto (proto_input_specs proto)
     @ write_repeated write_ArraySpecProto (proto_output_specs proto)"

definition ParseFromString ::
  "string \<Rightarrow> (DeviceListProto, ArraySpecProto) IoCallableProgramProto option" where
  "ParseFromString s =
     (case read_string s of
        None \<Rightarrow> None
      | Some (ty, s1) \<Rightarrow>
     (case read_string s1 of
        None \<Rightarrow> None
      | Some (nm, s2) \<Rightarrow>
     (case read_string s2 of
        None \<Rightarrow> None
      | Some (text, s3) \<Rightarrow>
     (case read_DeviceListProto s3 of
        None \<Rightarrow> None
      | Some (ds, s4) \<Rightarrow>
     (case read_repeated read_ArraySpecProto s4 of
        None \<Rightarrow> None
      | Some (ins, s5) \<Rightarrow>
     (case read_repeated read_ArraySpecProto s5 of
        None \<Rightarrow> None
      | Some (outs, rest) \<Rightarrow>
          (if rest \<noteq> [] then None
           else Some \<lparr>proto_type = ty, proto_name = nm,
                      proto_serialized_program_text = text, proto_devices = ds,
                      proto_input_specs = ins, proto_output_specs = outs\<rparr>)))))))"

section \<open>\<^verbatim>\<open>register_plugin_profiler\<close> (\<^verbatim>\<open>profiler.cc\<close>)\<close>

text \<open>
  The extension chain of a \<^verbatim>\<open>PJRT_Api\<close>: \<^verbatim>\<open>extension_start\<close> points to the
  first \<^verbatim>\<open>PJRT_Extension_Base\<close>, each extension to the \<^verbatim>\<open>next\<close>, the last one
  to null. The chain is the list of its extensions. An extension has a \<^verbatim>\<open>type\<close>;
  \<^verbatim>\<open>profiler_api\<close> is the pointer \<^verbatim>\<open>FindProfilerApi\<close> reads after it has cast
  the extension to \<^verbatim>\<open>PJRT_Profiler_Extension\<close> (an address, or \<open>None\<close> for null).
\<close>

datatype PJRT_Extension_Type =
    PJRT_Extension_Type_Profiler
  | PJRT_Extension_Type_Other nat

record PJRT_Extension_Base =
  extension_type :: PJRT_Extension_Type
  profiler_api :: "nat option"

record PJRT_Api =
  extension_start :: "PJRT_Extension_Base list"

fun FindProfilerApi_loop :: "PJRT_Extension_Base list \<Rightarrow> nat option" where
  "FindProfilerApi_loop [] = None"
| "FindProfilerApi_loop (next # rest) =
     (if extension_type next \<noteq> PJRT_Extension_Type_Profiler
      then FindProfilerApi_loop rest
      else profiler_api next)"

definition FindProfilerApi :: "PJRT_Api \<Rightarrow> nat option" where
  "FindProfilerApi pjrt_api = FindProfilerApi_loop (extension_start pjrt_api)"

text \<open>
  The \<^verbatim>\<open>nb::capsule\<close> argument: \<^verbatim>\<open>name()\<close> is a C string, or null for a capsule
  that was made without a name (\<open>None\<close>); \<^verbatim>\<open>data()\<close> is the pointer the capsule
  holds, which the function takes for a \<^verbatim>\<open>PJRT_Api\<close>.
\<close>

record capsule =
  capsule_name :: "string option"
  capsule_data :: PJRT_Api

text \<open>
  What a call does besides returning, in the order of the source: the read of the
  capsule's data pointer and the registration of a profiler factory that captured the
  \<^verbatim>\<open>profiler_api\<close> it was built with.
\<close>

datatype effect =
    ReadCapsuleData
  | RegisterProfilerFactory "nat option"

datatype XlaRuntimeError = XlaRuntimeError string

text \<open>
  The outcome of the bound function: it throws, or it returns (\<^verbatim>\<open>void\<close>).
  \<^verbatim>\<open>std::string_view\<close> of a null pointer is outside the language's defined behaviour
  and is kept apart.
\<close>

datatype call_outcome =
    NullNameView
  | Raised XlaRuntimeError
  | ReturnedVoid

definition register_plugin_profiler :: "capsule \<Rightarrow> call_outcome \<times> effect list" where
  "register_plugin_profiler c_api =
     (case capsule_name c_api of
        None \<Rightarrow> (NullNameView, [])
      | Some c_api_name \<Rightarrow>
          (if c_api_name \<noteq> ''pjrt_c_api'' then
             (Raised (XlaRuntimeError
                ''Argument to register_plugin_profiler was not a pjrt_c_api capsule.''), [])
           else
             (let profiler_api = FindProfilerApi (capsule_data c_api)
              in (ReturnedVoid, [ReadCapsuleData, RegisterProfilerFactory profiler_api]))))"

section \<open>Ahead-of-time compilation and loading\<close>

text \<open>
  Modelled from the spec: the errors of \<^verbatim>\<open>Compile\<close> and \<^verbatim>\<open>Load\<close>. The compiler
  and the client that the test \<^verbatim>\<open>se_gpu_pjrt_compiler_aot_test.cc\<close> drives are
  missing; their contract is the specification's.
\<close>

datatype Error =
    UnsupportedOp
  | TargetMismatch
  | InternalCompilerError
  | TargetIncompatible
  | MalformedPayload

text \<open>
  Modelled from the spec: a target description is an immutable snapshot of a device's
  compilation properties, carried verbatim as bytes; an \<^verbatim>\<open>Executable\<close> owns the
  compiled machine code (bytes) and, as metadata, the target description it was compiled
  against.
\<close>

type_synonym TargetDescription = string

record Executable =
  machine_code :: string
  captured_target :: TargetDescription

text \<open>
  Modelled from the spec: \<^verbatim>\<open>Compile(options, source_program, target_description,
  optional_client)\<close>. The lowering is the accelerator backend's, an opaque function with
  the failure modes \<open>UnsupportedOp\<close>, \<open>TargetMismatch\<close> and
  \<open>InternalCompilerError\<close>; the client may be absent (\<open>None\<close>), and the result is a
  function of the options, the program and the target description.
\<close>

definition Compile ::
  "('options \<Rightarrow> 'program \<Rightarrow> TargetDescription \<Rightarrow> Error + string) \<Rightarrow>
   'options \<Rightarrow> 'program \<Rightarrow> TargetDescription \<Rightarrow> 'client option \<Rightarrow>
   Error + Executable" where
  "Compile lower options source_program target_description optional_client =
     (case lower options source_program target_description of
        Inl error \<Rightarrow> Inl error
      | Inr code \<Rightarrow> Inr \<lparr>machine_code = code, captured_target = target_description\<rparr>)"

text \<open>
  Modelled from the spec: \<^verbatim>\<open>SerializeExecutable\<close> produces a self-contained byte
  sequence: a format/version tag, the captured target and the machine code, each with
  its length first.
\<close>

definition SerializeExecutable :: "string \<Rightarrow> Executable \<Rightarrow> string" where
  "SerializeExecutable format_version executable =
     write_string format_version @ write_string (captured_target executable)
     @ write_string (machine_code executable)"

text \<open>
  Modelled from the spec: a client has live devices of one capability (a target
  description); a \<^verbatim>\<open>LoadedExecutable\<close> is compiled code bound to the live devices
  of a client.
\<close>

record 'device Client =
  live_target :: TargetDescription
  live_devices :: "'device list"

record 'device LoadedExecutable =
  loaded_code :: string
  bound_devices :: "'device list"

text \<open>
  Modelled from the spec: \<^verbatim>\<open>Load\<close> of an executable fails with
  \<open>TargetIncompatible\<close> when the captured target does not match the capabilities of
  the client's live devices, and binds the artifact to these devices otherwise. It has no
  access to the lowering: nothing is compiled again.
\<close>

definition Load :: "Executable \<Rightarrow> 'device Client \<Rightarrow> Error + 'device LoadedExecutable" where
  "Load executable client =
     (if captured_target executable \<noteq> live_target client then Inl TargetIncompatible
      else Inr \<lparr>loaded_code = machine_code executable,
                bound_devices = live_devices client\<rparr>)"

text \<open>
  Modelled from the spec: \<^verbatim>\<open>Load\<close> of serialized bytes fails with
  \<open>MalformedPayload\<close> when the bytes do not parse as a serialized executable of a known
  version (here the one version \<open>format_version\<close>), and loads the parsed executable
  otherwise.
\<close>

definition LoadSerialized ::
  "string \<Rightarrow> string \<Rightarrow> 'device Client \<Rightarrow> Error + 'device LoadedExecutable" where
  "LoadSerialized format_version serialized client =
     (case read_string serialized of
        None \<Rightarrow> Inl MalformedPayload
      | Some (version, s1) \<Rightarrow>
     (if version \<noteq> format_version then Inl MalformedPayload
      else
     (case read_string s1 of
        None \<Rightarrow> Inl MalformedPayload
      | Some (target, s2) \<Rightarrow>
     (case read_string s2 of
        None \<Rightarrow> Inl MalformedPayload
      | Some (code, rest) \<Rightarrow>
          (if rest \<noteq> [] then Inl MalformedPayload
           else Load \<lparr>machine_code = code, captured_target = target\<rparr> client)))))"

section \<open>Properties of \<^verbatim>\<open>IoCallableCompileOptionsSerDes\<close>\<close>

text \<open>
  C3. Serializing an \<^verbatim>\<open>IoCallableCompileOptions\<close> value always yields the zero-length
  byte sequence; deserializing returns a value exactly on the zero-length sequence, and on
  every other payload it returns the invalid-argument status (MalformedPayload) and no
  value.
\<close>

theorem CompileOptions_empty_canonical:
  "IoCallableCompileOptionsSerDes_Serialize (CompileOptionsSerializable v) = Returned (Inr [])
   \<and> ((\<exists>v'. IoCallableCompileOptionsSerDes_Deserialize serialized options = Returned (Inr v'))
        = (serialized = []))
   \<and> ((\<exists>m. IoCallableCompileOptionsSerDes_Deserialize serialized options
              = Returned (Inl (InvalidArgumentError m)))
        = (serialized \<noteq> []))"
  by (simp add: IoCallableCompileOptionsSerDes_Serialize_def IoCallableCompileOptionsSerDes_Deserialize_def)

text \<open>
  C9. The outcome of \<^verbatim>\<open>IoCallableCompileOptionsSerDes::Deserialize\<close> is a function of
  the serialized bytes alone: any two options values (null, of the program options class
  or of any other class) give the same outcome, and that outcome is never the failed
  options cast, so no options mismatch can occur for this kind.
\<close>

theorem IoCallableCompileOptionsSerDes_Deserialize_ignores_options:
  "IoCallableCompileOptionsSerDes_Deserialize serialized o1 = IoCallableCompileOptionsSerDes_Deserialize serialized o2
   \<and> IoCallableCompileOptionsSerDes_Deserialize serialized o1 \<noteq> CastAssertionFailed"
  by (simp add: IoCallableCompileOptionsSerDes_Deserialize_def)

section \<open>The conversion loop\<close>

lemma assign_or_return_each_target:
  "assign_or_return_each f target xs =
     (case assign_or_return_each f [] xs of
        Inl st \<Rightarrow> Inl st
      | Inr ys \<Rightarrow> Inr (target @ ys))"
proof (induction xs arbitrary: target)
  case Nil
  show ?case by simp
next
  case (Cons x xs)
  show ?case
  proof (cases "f x")
    case (Inl st)
    then show ?thesis by simp
  next
    case (Inr y)
    have "assign_or_return_each f (target @ [y]) xs =
            (case assign_or_return_each f [] xs of
               Inl st \<Rightarrow> Inl st | Inr ys \<Rightarrow> Inr ((target @ [y]) @ ys))"
      by (rule Cons.IH)
    moreover have "assign_or_return_each f ([] @ [y]) xs =
            (case assign_or_return_each f [] xs of
               Inl st \<Rightarrow> Inl st | Inr ys \<Rightarrow> Inr (([] @ [y]) @ ys))"
      by (rule Cons.IH)
    ultimately show ?thesis
      using Inr by (simp split: sum.splits)
  qed
qed

lemma assign_or_return_each_Cons:
  "assign_or_return_each f [] (x # xs) =
     (case f x of
        Inl st \<Rightarrow> Inl st
      | Inr y \<Rightarrow>
         (case assign_or_return_each f [] xs of
            Inl st \<Rightarrow> Inl st
          | Inr ys \<Rightarrow> Inr (y # ys)))"
proof (cases "f x")
  case (Inl st)
  then show ?thesis by simp
next
  case (Inr y)
  then show ?thesis
    using assign_or_return_each_target [of f "[y]" xs]
    by (simp split: sum.splits)
qed

text \<open>
  The loop keeps the number and the order of the elements.
\<close>

lemma assign_or_return_each_length:
  "assign_or_return_each f [] xs = Inr ys \<Longrightarrow> length ys = length xs"
proof (induction xs arbitrary: ys)
  case Nil
  then show ?case by simp
next
  case (Cons x xs)
  then show ?case
    by (auto simp: assign_or_return_each_Cons simp del: assign_or_return_each.simps(2)
          split: sum.splits)
qed

text \<open>
  A loop over converted elements with a conversion that inverts the first one on the
  elements of the list gives the list back.
\<close>

lemma assign_or_return_each_inverse:
  assumes "assign_or_return_each f [] xs = Inr ys"
    and "\<And>x y. x \<in> set xs \<Longrightarrow> f x = Inr y \<Longrightarrow> g y = Inr x"
  shows "assign_or_return_each g [] ys = Inr xs"
  using assms
proof (induction xs arbitrary: ys)
  case Nil
  then show ?case by simp
next
  case (Cons x xs)
  from Cons.prems(1) obtain y ys' where
    y: "f x = Inr y" and ys': "assign_or_return_each f [] xs = Inr ys'" and
    ys: "ys = y # ys'"
    by (auto simp: assign_or_return_each_Cons simp del: assign_or_return_each.simps(2)
          split: sum.splits)
  have "g y = Inr x"
    using Cons.prems(2) [of x y] y by simp
  moreover have "assign_or_return_each g [] ys' = Inr xs"
    using Cons.IH [OF ys'] Cons.prems(2) by simp
  ultimately show ?case
    using ys by (simp add: assign_or_return_each_Cons del: assign_or_return_each.simps(2))
qed

text \<open>
  The loop fails exactly with the status of an element that fails, and succeeds exactly
  when every element converts.
\<close>

lemma assign_or_return_each_Inl:
  "assign_or_return_each f [] xs = Inl st \<Longrightarrow> \<exists>x \<in> set xs. f x = Inl st"
proof (induction xs)
  case Nil
  then show ?case by simp
next
  case (Cons x xs)
  then show ?case
    by (auto simp: assign_or_return_each_Cons simp del: assign_or_return_each.simps(2)
          split: sum.splits)
qed

lemma assign_or_return_each_Inr:
  "(assign_or_return_each f [] xs = Inr ys) = (map f xs = map Inr ys)"
proof (induction xs arbitrary: ys)
  case Nil
  show ?case by auto
next
  case (Cons x xs)
  note step = assign_or_return_each_Cons [of f x xs]
  show ?case
  proof (cases ys)
    case Nil
    then show ?thesis
      unfolding step by (simp split: sum.splits)
  next
    case ys: (Cons y ys')
    show ?thesis
    proof (cases "f x")
      case (Inl st)
      then show ?thesis
        unfolding step ys by simp
    next
      case (Inr y')
      show ?thesis
      proof (cases "assign_or_return_each f [] xs")
        case (Inl st)
        then have "map f xs \<noteq> map Inr ys'"
          using Cons.IH [of ys'] by simp
        then show ?thesis
          unfolding step ys using Inr Inl by simp
      next
        case zs: (Inr zs)
        then have "map f xs = map Inr zs"
          using Cons.IH [of zs] by simp
        then show ?thesis
          unfolding step ys using Inr zs by (simp add: inj_map_eq_map)
      qed
    qed
  qed
qed

lemma assign_or_return_each_total:
  assumes "\<And>x. x \<in> set xs \<Longrightarrow> \<exists>y. f x = Inr y"
  shows "\<exists>ys. assign_or_return_each f [] xs = Inr ys"
proof (cases "assign_or_return_each f [] xs")
  case (Inl st)
  then obtain x where "x \<in> set xs" "f x = Inl st"
    using assign_or_return_each_Inl by blast
  then show ?thesis using assms by fastforce
next
  case (Inr ys)
  then show ?thesis by blast
qed

section \<open>The wire format parses what it writes\<close>

lemma read_write_varint: "read_varint (write_varint n @ rest) = Some (n, rest)"
proof (induction n rule: write_varint.induct)
  case (1 n)
  show ?case
  proof (cases "n < 128")
    case True
    then show ?thesis by (subst write_varint.simps) simp
  next
    case False
    have lt: "128 + n mod 128 < 256" by simp
    have "read_varint (write_varint (n div 128) @ rest) = Some (n div 128, rest)"
      using 1 False by simp
    then show ?thesis
      using False lt
      by (subst write_varint.simps) simp
  qed
qed

lemma read_write_int: "read_int (write_int i @ rest) = Some (i, rest)"
proof (cases "0 \<le> i")
  case True
  then show ?thesis
    by (simp add: read_int_def write_int_def read_write_varint)
next
  case False
  then obtain k where k: "nat (- i) = Suc k"
    by (cases "nat (- i)") simp_all
  have i: "i = - int (Suc k)"
    using k False by linarith
  have "2 * nat (- i) - 1 = Suc (2 * k)"
    using k by simp
  then show ?thesis
    using False i by (simp add: read_int_def write_int_def read_write_varint)
qed

lemma read_write_string: "read_string (write_string s @ rest) = Some (s, rest)"
  by (simp add: read_string_def write_string_def read_write_varint)

lemma read_n_concat:
  assumes "\<And>x rest. x \<in> set xs \<Longrightarrow> read_one (write_one x @ rest) = Some (x, rest)"
  shows "read_n read_one (length xs) (concat (map write_one xs) @ rest) = Some (xs, rest)"
  using assms by (induction xs) simp_all

lemma read_write_repeated:
  assumes "\<And>x rest. x \<in> set xs \<Longrightarrow> read_one (write_one x @ rest) = Some (x, rest)"
  shows "read_repeated read_one (write_repeated write_one xs @ rest) = Some (xs, rest)"
  using read_n_concat [of xs read_one write_one rest] assms
  by (simp add: read_repeated_def write_repeated_def read_write_varint
       )

lemma read_write_DeviceListProto:
  "read_DeviceListProto (write_DeviceListProto proto @ rest) = Some (proto, rest)"
  by (simp add: read_DeviceListProto_def write_DeviceListProto_def read_write_repeated
        read_write_int)

lemma read_write_ArraySpecProto:
  "read_ArraySpecProto (write_ArraySpecProto proto @ rest) = Some (proto, rest)"
  by (simp add: read_ArraySpecProto_def write_ArraySpecProto_def read_write_string
        read_write_repeated read_write_int read_write_DeviceListProto)

lemma ParseFromString_SerializeAsString:
  "ParseFromString (SerializeAsString proto) = Some proto"
proof -
  have "read_repeated read_ArraySpecProto
          (write_repeated write_ArraySpecProto (proto_output_specs proto)) =
        Some (proto_output_specs proto, [])"
    using read_write_repeated [of "proto_output_specs proto" read_ArraySpecProto
            write_ArraySpecProto "[]"]
    by (simp add: read_write_ArraySpecProto)
  then show ?thesis
    by (simp add: ParseFromString_def SerializeAsString_def read_write_string
        read_write_repeated read_write_DeviceListProto read_write_ArraySpecProto)
qed

section \<open>Device resolution\<close>

lemma resolve_device_Inl:
  "(resolve_device lookup device_id = Inl st) =
     (lookup device_id = None \<and> st = UnresolvedDevice device_id)"
  by (auto simp: resolve_device_def split: option.splits)

lemma resolve_device_Inr:
  "(resolve_device lookup device_id = Inr device) = (lookup device_id = Some device)"
  by (auto simp: resolve_device_def split: option.splits)

lemma DeviceList_FromProto_Inl:
  assumes "DeviceList_FromProto lookup proto = Inl st"
  shows "\<exists>device_id \<in> set (device_ids proto).
           lookup device_id = None \<and> st = UnresolvedDevice device_id"
  using assign_or_return_each_Inl [OF assms [unfolded DeviceList_FromProto_def]]
  by (simp add: resolve_device_Inl)

lemma DeviceList_FromProto_Inr:
  "(DeviceList_FromProto lookup proto = Inr device_list) =
     (map lookup (device_ids proto) = map Some device_list)"
proof -
  have "(map (resolve_device lookup) ids = map Inr ds) = (map lookup ids = map Some ds)"
    for ids ds
  proof (induction ids arbitrary: ds)
    case Nil
    show ?case by simp
  next
    case (Cons a ids)
    then show ?case by (cases ds) (auto simp: resolve_device_Inr)
  qed
  then show ?thesis
    by (simp add: DeviceList_FromProto_def assign_or_return_each_Inr)
qed

lemma DeviceList_round_trip:
  assumes "\<And>device. device \<in> set device_list \<Longrightarrow> lookup (Id device) = Some device"
  shows "DeviceList_FromProto lookup (DeviceList_ToProto device_list) = Inr device_list"
  using assms by (simp add: DeviceList_FromProto_Inr DeviceList_ToProto_def)

lemma DeviceList_FromProto_total:
  assumes "\<And>device_id. device_id \<in> set (device_ids proto) \<Longrightarrow> lookup device_id \<noteq> None"
  shows "\<exists>device_list. DeviceList_FromProto lookup proto = Inr device_list"
proof -
  have "\<exists>y. resolve_device lookup x = Inr y" if "x \<in> set (device_ids proto)" for x
    using assms [OF that] by (auto simp: resolve_device_def)
  then show ?thesis
    unfolding DeviceList_FromProto_def by (rule assign_or_return_each_total)
qed

lemma map_Some_defined:
  assumes "map f xs = map Some ys" and "x \<in> set xs"
  shows "\<exists>y. f x = Some y"
proof -
  have "f x \<in> set (map f xs)"
    using assms(2) by simp
  then have "f x \<in> set (map Some ys)"
    unfolding assms(1) .
  then show ?thesis by auto
qed

lemma DeviceList_FromProto_resolved:
  assumes "DeviceList_FromProto lookup proto = Inr device_list"
    and "device_id \<in> set (device_ids proto)"
  shows "\<exists>device. lookup device_id = Some device"
  using assms map_Some_defined [of lookup "device_ids proto" device_list device_id]
  by (simp add: DeviceList_FromProto_Inr)

lemma ArraySpec_FromProto_Inl:
  assumes "ArraySpec_FromProto lookup spec = Inl st"
  shows "\<exists>device_id \<in> set (device_ids (proto_sharding spec)).
           lookup device_id = None \<and> st = UnresolvedDevice device_id"
proof -
  from assms have "DeviceList_FromProto lookup (proto_sharding spec) = Inl st"
    by (auto simp: ArraySpec_FromProto_def split: sum.splits)
  then show ?thesis by (rule DeviceList_FromProto_Inl)
qed

lemma ArraySpec_FromProto_total:
  assumes "\<And>device_id. device_id \<in> set (device_ids (proto_sharding spec)) \<Longrightarrow>
             lookup device_id \<noteq> None"
  shows "\<exists>array_spec. ArraySpec_FromProto lookup spec = Inr array_spec"
  using DeviceList_FromProto_total [of "proto_sharding spec" lookup] assms
  by (auto simp: ArraySpec_FromProto_def)

lemma ArraySpec_FromProto_resolved:
  assumes "ArraySpec_FromProto lookup spec = Inr array_spec"
    and "device_id \<in> set (device_ids (proto_sharding spec))"
  shows "\<exists>device. lookup device_id = Some device"
proof -
  from assms(1) obtain ds where "DeviceList_FromProto lookup (proto_sharding spec) = Inr ds"
    by (auto simp: ArraySpec_FromProto_def split: sum.splits)
  then show ?thesis
    using assms(2) by (rule DeviceList_FromProto_resolved)
qed

lemma ArraySpec_round_trip:
  assumes "\<And>device. device \<in> set (sharding spec) \<Longrightarrow> lookup (Id device) = Some device"
    and "ArraySpec_ToProto spec = Inr spec_proto"
  shows "ArraySpec_FromProto lookup spec_proto = Inr spec"
  using assms DeviceList_round_trip [of "sharding spec" lookup]
  by (auto simp: ArraySpec_ToProto_def ArraySpec_FromProto_def)

lemma specs_FromProto_Inl:
  assumes "assign_or_return_each (ArraySpec_FromProto lookup) [] specs = Inl st"
  shows "\<exists>spec \<in> set specs. \<exists>device_id \<in> set (device_ids (proto_sharding spec)).
           lookup device_id = None \<and> st = UnresolvedDevice device_id"
proof -
  from assign_or_return_each_Inl [OF assms] obtain spec where
    "spec \<in> set specs" and "ArraySpec_FromProto lookup spec = Inl st"
    by blast
  then show ?thesis
    using ArraySpec_FromProto_Inl [of lookup spec st] by blast
qed

lemma specs_FromProto_resolved:
  assumes "assign_or_return_each (ArraySpec_FromProto lookup) [] specs = Inr array_specs"
    and "spec \<in> set specs"
    and "device_id \<in> set (device_ids (proto_sharding spec))"
  shows "\<exists>device. lookup device_id = Some device"
proof -
  have "map (ArraySpec_FromProto lookup) specs = map Inr array_specs"
    using assms(1) by (simp add: assign_or_return_each_Inr)
  moreover have "ArraySpec_FromProto lookup spec \<in> set (map (ArraySpec_FromProto lookup) specs)"
    using assms(2) by simp
  ultimately have "ArraySpec_FromProto lookup spec \<in> set (map Inr array_specs)"
    by simp
  then obtain array_spec where "ArraySpec_FromProto lookup spec = Inr array_spec"
    by auto
  then show ?thesis
    using assms(3) by (rule ArraySpec_FromProto_resolved)
qed

lemma specs_FromProto_total:
  assumes "\<And>spec device_id. spec \<in> set specs \<Longrightarrow>
             device_id \<in> set (device_ids (proto_sharding spec)) \<Longrightarrow>
             lookup device_id \<noteq> None"
  shows "\<exists>array_specs.
           assign_or_return_each (ArraySpec_FromProto lookup) [] specs = Inr array_specs"
proof (rule assign_or_return_each_total)
  fix spec
  assume "spec \<in> set specs"
  then show "\<exists>y. ArraySpec_FromProto lookup spec = Inr y"
    using assms ArraySpec_FromProto_total [of spec lookup] by blast
qed

section \<open>Properties of \<^verbatim>\<open>IoCallableProgramSerDes\<close>\<close>

text \<open>
  After the options cast and the parse have succeeded, \<^verbatim>\<open>Deserialize\<close> is the
  chain of the three conversions.
\<close>

lemma Deserialize_after_parse:
  assumes "parse_from_string serialized = Some proto"
  shows "IoCallableProgramSerDes_Deserialize parse_from_string device_list_from_proto
           array_spec_from_proto serialized (Some (DeserializeProgramOptions lookup)) =
         Returned
          (case device_list_from_proto lookup (proto_devices proto) of
             Inl st \<Rightarrow> Inl st
           | Inr devs \<Rightarrow>
              (case assign_or_return_each (array_spec_from_proto lookup) []
                      (proto_input_specs proto) of
                 Inl st \<Rightarrow> Inl st
               | Inr ins \<Rightarrow>
                  (case assign_or_return_each (array_spec_from_proto lookup) []
                          (proto_output_specs proto) of
                     Inl st \<Rightarrow> Inl st
                   | Inr outs \<Rightarrow> Inr
                       \<lparr>type = proto_type proto, name = proto_name proto,
                        serialized_program_text = proto_serialized_program_text proto,
                        devices = devs, input_specs = ins, output_specs = outs\<rparr>)))"
  using assms by (simp add: IoCallableProgramSerDes_Deserialize_def split: sum.splits)

subsection \<open>Round trip\<close>

text \<open>
  C1. For an \<^verbatim>\<open>IoCallableProgram\<close> whose serialization returned bytes,
  deserializing these bytes with a \<^verbatim>\<open>DeserializeProgramOptions\<close> consistent with the
  program's device references returns the program itself: type, name, program text,
  device list and both spec lists, in number and order. The hypotheses are the contracts
  of the collaborators: the parser gives back the message the bytes were written from,
  and converting from the message with the options' \<^verbatim>\<open>lookup_device\<close> inverts the
  conversion to the message on this program's device list and array specs.
\<close>

theorem IoCallableProgram_round_trip:
  assumes ser: "IoCallableProgramSerDes_Serialize serialize_as_string device_list_to_proto
                  array_spec_to_proto (ProgramSerializable program) = Returned (Inr serialized)"
    and codec: "\<And>proto. serialize_as_string proto = serialized \<Longrightarrow>
                  parse_from_string serialized = Some proto"
    and devs: "device_list_from_proto lookup (device_list_to_proto (devices program)) =
                 Inr (devices program)"
    and specs: "\<And>spec spec_proto.
                  spec \<in> set (input_specs program) \<union> set (output_specs program) \<Longrightarrow>
                  array_spec_to_proto spec = Inr spec_proto \<Longrightarrow>
                  array_spec_from_proto lookup spec_proto = Inr spec"
  shows "IoCallableProgramSerDes_Deserialize parse_from_string device_list_from_proto
           array_spec_from_proto serialized (Some (DeserializeProgramOptions lookup)) =
         Returned (Inr program)"
proof -
  from ser obtain ins outs where
    ins: "assign_or_return_each array_spec_to_proto [] (input_specs program) = Inr ins" and
    outs: "assign_or_return_each array_spec_to_proto [] (output_specs program) = Inr outs" and
    bytes: "serialized = serialize_as_string
              \<lparr>proto_type = type program, proto_name = name program,
               proto_serialized_program_text = serialized_program_text program,
               proto_devices = device_list_to_proto (devices program),
               proto_input_specs = ins, proto_output_specs = outs\<rparr>"
    by (auto simp: IoCallableProgramSerDes_Serialize_def split: sum.splits)
  have parse: "parse_from_string serialized = Some
              \<lparr>proto_type = type program, proto_name = name program,
               proto_serialized_program_text = serialized_program_text program,
               proto_devices = device_list_to_proto (devices program),
               proto_input_specs = ins, proto_output_specs = outs\<rparr>"
    using codec bytes by simp
  have ins': "assign_or_return_each (array_spec_from_proto lookup) [] ins =
                Inr (input_specs program)"
    using ins specs by (intro assign_or_return_each_inverse [OF ins]) simp
  have outs': "assign_or_return_each (array_spec_from_proto lookup) [] outs =
                 Inr (output_specs program)"
    using outs specs by (intro assign_or_return_each_inverse [OF outs]) simp
  show ?thesis
    by (simp add: IoCallableProgramSerDes_Deserialize_def parse devs ins' outs')
qed

text \<open>
  The round trip of a program on two devices with one input spec, through the wire format
  and the device list and array spec conversions of the sections above.
\<close>

theorem IoCallableProgram_round_trip_witness:
  "IoCallableProgramSerDes_Serialize SerializeAsString DeviceList_ToProto ArraySpec_ToProto
     (ProgramSerializable
       \<lparr>type = ''io'', name = ''f'', serialized_program_text = ''x'',
        devices = [Device 0 4096, Device 1 8192],
        input_specs = [\<lparr>dtype = ''s32'', shape = [2],
                        sharding = [Device 0 4096, Device 1 8192]\<rparr>],
        output_specs = []\<rparr>) =
   Returned (Inr
     [CHR 0x02, CHR ''i'', CHR ''o'', CHR 0x01, CHR ''f'', CHR 0x01, CHR ''x'',
      CHR 0x02, CHR 0x00, CHR 0x02, CHR 0x01, CHR 0x03, CHR ''s'', CHR ''3'',
      CHR ''2'', CHR 0x01, CHR 0x04, CHR 0x02, CHR 0x00, CHR 0x02, CHR 0x00])
   \<and> IoCallableProgramSerDes_Deserialize ParseFromString DeviceList_FromProto
     ArraySpec_FromProto
     [CHR 0x02, CHR ''i'', CHR ''o'', CHR 0x01, CHR ''f'', CHR 0x01, CHR ''x'',
      CHR 0x02, CHR 0x00, CHR 0x02, CHR 0x01, CHR 0x03, CHR ''s'', CHR ''3'',
      CHR ''2'', CHR 0x01, CHR 0x04, CHR 0x02, CHR 0x00, CHR 0x02, CHR 0x00]
     (Some (DeserializeProgramOptions [0 \<mapsto> Device 0 4096, 1 \<mapsto> Device 1 8192])) =
   Returned (Inr
       \<lparr>type = ''io'', name = ''f'', serialized_program_text = ''x'',
        devices = [Device 0 4096, Device 1 8192],
        input_specs = [\<lparr>dtype = ''s32'', shape = [2],
                        sharding = [Device 0 4096, Device 1 8192]\<rparr>],
        output_specs = []\<rparr>)"
  (is "?S = Returned (Inr ?bytes) \<and> ?D = Returned (Inr ?program)")
proof
  let ?lookup = "[0 \<mapsto> Device 0 4096, 1 \<mapsto> Device 1 8192] :: LookupDeviceFunc"
  show ser: "?S = Returned (Inr ?bytes)"
    by code_simp
  have codec: "ParseFromString ?bytes = Some proto" if "SerializeAsString proto = ?bytes"
    for proto
    unfolding that [symmetric] by (rule ParseFromString_SerializeAsString)
  have devs: "DeviceList_FromProto ?lookup (DeviceList_ToProto (devices ?program)) =
                Inr (devices ?program)"
    by (rule DeviceList_round_trip) auto
  have specs: "ArraySpec_FromProto ?lookup spec_proto = Inr spec"
    if "spec \<in> set (input_specs ?program) \<union> set (output_specs ?program)"
      and "ArraySpec_ToProto spec = Inr spec_proto" for spec spec_proto
  proof (rule ArraySpec_round_trip [OF _ that(2)])
    fix device
    assume "device \<in> set (sharding spec)"
    with that(1) show "?lookup (Id device) = Some device"
      by auto
  qed
  show "?D = Returned (Inr ?program)"
    by (rule IoCallableProgram_round_trip
        [where serialize_as_string = SerializeAsString
           and parse_from_string = ParseFromString
           and device_list_to_proto = DeviceList_ToProto
           and device_list_from_proto = DeviceList_FromProto
           and array_spec_to_proto = ArraySpec_ToProto
           and array_spec_from_proto = ArraySpec_FromProto
           and lookup = ?lookup,
         OF ser codec devs specs])
qed

subsection \<open>Parse failure\<close>

text \<open>
  C6. Called with a \<^verbatim>\<open>DeserializeProgramOptions\<close>, \<^verbatim>\<open>Deserialize\<close> returns the
  invalid-argument status (MalformedPayload) on every byte string that does not parse as
  an \<^verbatim>\<open>IoCallableProgramProto\<close>; no program, whole or partial, is returned.
\<close>

theorem Deserialize_parse_failure:
  assumes "parse_from_string serialized = None"
  shows "IoCallableProgramSerDes_Deserialize parse_from_string device_list_from_proto
           array_spec_from_proto serialized (Some (DeserializeProgramOptions lookup)) =
         Returned (Inl (InvalidArgumentError
           ''Failed to parse serialized IoCallableProgramProto''))"
  using assms by (simp add: IoCallableProgramSerDes_Deserialize_def)

text \<open>
  A single byte with the continuation bit set is a truncated varint and does not parse.
\<close>

theorem Deserialize_parse_failure_witness:
  "ParseFromString [CHR 0xFF] = None
   \<and> IoCallableProgramSerDes_Deserialize ParseFromString DeviceList_FromProto
        ArraySpec_FromProto [CHR 0xFF]
        (Some (DeserializeProgramOptions [0 \<mapsto> Device 0 4096])) =
      Returned (Inl (InvalidArgumentError
        ''Failed to parse serialized IoCallableProgramProto''))"
proof -
  have none: "ParseFromString [CHR 0xFF] = None"
    by (simp add: ParseFromString_def read_string_def)
  show ?thesis
    using none
      Deserialize_parse_failure
        [where parse_from_string = ParseFromString and serialized = "[CHR 0xFF]", OF none]
    by simp
qed

subsection \<open>The options cast\<close>

text \<open>
  C2, as the code has it. Options that are null or of another class than
  \<^verbatim>\<open>DeserializeProgramOptions\<close> are never reported as an invalid-options status. The
  one check is the assertion of \<^verbatim>\<open>llvm::cast\<close>: a build with assertions ends at the
  failed assertion and returns no status and no value. A build with \<^verbatim>\<open>NDEBUG\<close>
  checks nothing: on bytes that do not parse it returns the invalid-argument status of
  the parse, as it does for matching options, and on bytes that parse it reads
  \<^verbatim>\<open>lookup_device\<close> through the mismatched pointer, which has no defined behaviour.
  With a \<^verbatim>\<open>DeserializeProgramOptions\<close> both builds return a \<^verbatim>\<open>StatusOr\<close>.
\<close>

theorem Deserialize_options_mismatch:
  "((\<forall>lookup. options \<noteq> Some (DeserializeProgramOptions lookup)) \<longrightarrow>
      IoCallableProgramSerDes_Deserialize_build build parse_from_string
        device_list_from_proto array_spec_from_proto serialized options =
      (case build of
         Assertions \<Rightarrow> AssertionFailed
       | NDEBUG \<Rightarrow>
           (case parse_from_string serialized of
              None \<Rightarrow> Returns (Inl (InvalidArgumentError
                       ''Failed to parse serialized IoCallableProgramProto''))
            | Some proto \<Rightarrow> InvalidPointerRead)))
   \<and> ((\<exists>lookup. options = Some (DeserializeProgramOptions lookup)) \<longrightarrow>
      (\<exists>result.
         IoCallableProgramSerDes_Deserialize_build build parse_from_string
           device_list_from_proto array_spec_from_proto serialized options =
         Returns result
         \<and> IoCallableProgramSerDes_Deserialize parse_from_string
             device_list_from_proto array_spec_from_proto serialized options =
           Returned result))"
proof (cases options)
  case None
  then show ?thesis
    by (cases build)
       (simp_all add: IoCallableProgramSerDes_Deserialize_build_def split: option.splits)
next
  case (Some given)
  show ?thesis
  proof (cases given)
    case (DeserializeProgramOptions lk)
    with Some show ?thesis
      by (simp add: IoCallableProgramSerDes_Deserialize_build_def
            IoCallableProgramSerDes_Deserialize_def split: option.splits)
  next
    case (OtherDeserializeOptions class_name)
    with Some show ?thesis
      by (cases build)
         (simp_all add: IoCallableProgramSerDes_Deserialize_build_def split: option.splits)
  qed
qed

text \<open>
  The options of another kind in the build with \<^verbatim>\<open>NDEBUG\<close>, on a byte string that
  does not parse and on the bytes of the program of the round trip above.
\<close>

theorem Deserialize_options_mismatch_witness:
  "IoCallableProgramSerDes_Deserialize_build NDEBUG ParseFromString DeviceList_FromProto
     ArraySpec_FromProto [CHR 0xFF]
     (Some (OtherDeserializeOptions ''xla::ifrt::DeserializeShardingOptions'')) =
   Returns (Inl (InvalidArgumentError ''Failed to parse serialized IoCallableProgramProto''))
   \<and> IoCallableProgramSerDes_Deserialize_build NDEBUG ParseFromString DeviceList_FromProto
       ArraySpec_FromProto
       [CHR 0x02, CHR ''i'', CHR ''o'', CHR 0x01, CHR ''f'', CHR 0x01, CHR ''x'',
        CHR 0x02, CHR 0x00, CHR 0x02, CHR 0x01, CHR 0x03, CHR ''s'', CHR ''3'',
        CHR ''2'', CHR 0x01, CHR 0x04, CHR 0x02, CHR 0x00, CHR 0x02, CHR 0x00]
       (Some (OtherDeserializeOptions ''xla::ifrt::DeserializeShardingOptions'')) =
     InvalidPointerRead"
proof -
  let ?options = "Some (OtherDeserializeOptions ''xla::ifrt::DeserializeShardingOptions'')
                    :: LookupDeviceFunc DeserializeOptions option"
  let ?bytes = "[CHR 0x02, CHR ''i'', CHR ''o'', CHR 0x01, CHR ''f'', CHR 0x01, CHR ''x'',
        CHR 0x02, CHR 0x00, CHR 0x02, CHR 0x01, CHR 0x03, CHR ''s'', CHR ''3'',
        CHR ''2'', CHR 0x01, CHR 0x04, CHR 0x02, CHR 0x00, CHR 0x02, CHR 0x00]"
  have mismatch: "\<forall>lookup. ?options \<noteq> Some (DeserializeProgramOptions lookup)"
    by simp
  have bad: "ParseFromString [CHR 0xFF] = None"
    by (simp add: ParseFromString_def read_string_def)
  have good: "ParseFromString ?bytes =
                Some \<lparr>proto_type = ''io'', proto_name = ''f'',
                      proto_serialized_program_text = ''x'',
                      proto_devices = DeviceListProto [0, 1],
                      proto_input_specs = [\<lparr>proto_dtype = ''s32'', proto_shape = [2],
                                              proto_sharding = DeviceListProto [0, 1]\<rparr>],
                      proto_output_specs = []\<rparr>"
    by code_simp
  show ?thesis
    using mismatch bad good
      Deserialize_options_mismatch
        [where options = ?options and build = NDEBUG
           and parse_from_string = ParseFromString
           and device_list_from_proto = DeviceList_FromProto
           and array_spec_from_proto = ArraySpec_FromProto and serialized = "[CHR 0xFF]"]
      Deserialize_options_mismatch
        [where options = ?options and build = NDEBUG
           and parse_from_string = ParseFromString
           and device_list_from_proto = DeviceList_FromProto
           and array_spec_from_proto = ArraySpec_FromProto and serialized = ?bytes]
    by simp
qed

text \<open>
  C2 as stated asks for an explicit invalid-options failure on every mismatch, never a
  mismatch that is ignored. With null options and a byte string that does not parse (one
  byte with the continuation bit set, a truncated varint), the build with assertions
  returns no status at all, and the build with \<^verbatim>\<open>NDEBUG\<close> returns the status of the
  parse, the very one it returns for matching options: the mismatch is ignored.
\<close>

theorem Deserialize_options_mismatch_counterexample:
  "IoCallableProgramSerDes_Deserialize_build Assertions ParseFromString DeviceList_FromProto
     ArraySpec_FromProto [CHR 0xFF] (None :: LookupDeviceFunc DeserializeOptions option) =
   AssertionFailed
   \<and> IoCallableProgramSerDes_Deserialize_build NDEBUG ParseFromString DeviceList_FromProto
       ArraySpec_FromProto [CHR 0xFF] (None :: LookupDeviceFunc DeserializeOptions option) =
     Returns (Inl (InvalidArgumentError ''Failed to parse serialized IoCallableProgramProto''))
   \<and> IoCallableProgramSerDes_Deserialize_build NDEBUG ParseFromString DeviceList_FromProto
       ArraySpec_FromProto [CHR 0xFF]
       (Some (DeserializeProgramOptions (Map.empty :: LookupDeviceFunc))) =
     Returns (Inl (InvalidArgumentError ''Failed to parse serialized IoCallableProgramProto''))"
proof -
  have bad: "ParseFromString [CHR 0xFF] = None"
    by (simp add: ParseFromString_def read_string_def)
  show ?thesis
    by (simp add: IoCallableProgramSerDes_Deserialize_build_def bad)
qed

subsection \<open>Device resolution through the options\<close>

text \<open>
  C4. When the parsed message has the device list \<open>[0, 1]\<close>, refers to no other
  logical device id, and the options resolve \<open>0\<close> to \<open>A\<close> and \<open>1\<close> to \<open>B\<close>,
  \<^verbatim>\<open>Deserialize\<close> returns a program whose device list is \<open>[A, B]\<close>, in that
  order.
\<close>

theorem Deserialize_device_resolution:
  assumes parse: "parse_from_string serialized = Some proto"
    and ids: "device_ids (proto_devices proto) = [0, 1]"
    and refs: "referenced_device_ids proto = {0, 1}"
    and A: "lookup 0 = Some A"
    and B: "lookup 1 = Some B"
  shows "\<exists>program.
           IoCallableProgramSerDes_Deserialize parse_from_string DeviceList_FromProto
             ArraySpec_FromProto serialized (Some (DeserializeProgramOptions lookup)) =
           Returned (Inr program) \<and> devices program = [A, B]"
proof -
  note run = Deserialize_after_parse
    [where parse_from_string = parse_from_string and serialized = serialized, OF parse]
  have devs: "DeviceList_FromProto lookup (proto_devices proto) = Inr [A, B]"
    using ids A B by (simp add: DeviceList_FromProto_Inr)
  have resolved: "lookup device_id \<noteq> None"
    if "spec \<in> set (proto_input_specs proto) \<union> set (proto_output_specs proto)"
      and "device_id \<in> set (device_ids (proto_sharding spec))" for spec device_id
  proof -
    have "device_id \<in> referenced_device_ids proto"
      using that by (auto simp: referenced_device_ids_def)
    then show ?thesis
      using refs A B by auto
  qed
  obtain ins where ins: "assign_or_return_each (ArraySpec_FromProto lookup) []
                           (proto_input_specs proto) = Inr ins"
    using specs_FromProto_total [of "proto_input_specs proto" lookup] resolved by blast
  obtain outs where outs: "assign_or_return_each (ArraySpec_FromProto lookup) []
                             (proto_output_specs proto) = Inr outs"
    using specs_FromProto_total [of "proto_output_specs proto" lookup] resolved by blast
  show ?thesis
    unfolding run by (simp add: devs ins outs)
qed

theorem Deserialize_device_resolution_witness:
  "\<exists>program.
     IoCallableProgramSerDes_Deserialize ParseFromString DeviceList_FromProto
       ArraySpec_FromProto
       [CHR 0x02, CHR ''i'', CHR ''o'', CHR 0x01, CHR ''f'', CHR 0x01, CHR ''x'',
        CHR 0x02, CHR 0x00, CHR 0x02, CHR 0x01, CHR 0x03, CHR ''s'', CHR ''3'',
        CHR ''2'', CHR 0x01, CHR 0x04, CHR 0x02, CHR 0x00, CHR 0x02, CHR 0x00]
       (Some (DeserializeProgramOptions [0 \<mapsto> Device 0 4096, 1 \<mapsto> Device 1 8192])) =
     Returned (Inr program)
     \<and> devices program = [Device 0 4096, Device 1 8192]"
proof -
  let ?proto = "\<lparr>proto_type = ''io'', proto_name = ''f'',
      proto_serialized_program_text = ''x'', proto_devices = DeviceListProto [0, 1],
      proto_input_specs = [\<lparr>proto_dtype = ''s32'', proto_shape = [2],
                              proto_sharding = DeviceListProto [0, 1]\<rparr>],
      proto_output_specs = []\<rparr>"
  let ?bytes = "[CHR 0x02, CHR ''i'', CHR ''o'', CHR 0x01, CHR ''f'', CHR 0x01, CHR ''x'',
        CHR 0x02, CHR 0x00, CHR 0x02, CHR 0x01, CHR 0x03, CHR ''s'', CHR ''3'',
        CHR ''2'', CHR 0x01, CHR 0x04, CHR 0x02, CHR 0x00, CHR 0x02, CHR 0x00]"
  have parse: "ParseFromString ?bytes = Some ?proto"
    by code_simp
  have ids: "device_ids (proto_devices ?proto) = [0, 1]"
    by simp
  have refs: "referenced_device_ids ?proto = {0, 1}"
    by (auto simp: referenced_device_ids_def)
  show ?thesis
    using Deserialize_device_resolution
      [where parse_from_string = ParseFromString and serialized = ?bytes
         and lookup = "[0 \<mapsto> Device 0 4096, 1 \<mapsto> Device 1 8192]",
       OF parse ids refs]
    by simp
qed

subsection \<open>Unresolved devices\<close>

text \<open>
  C5. When a logical device id that the parsed message refers to, in its device list or
  in any input or output spec, has no resolution under the options' capability,
  \<^verbatim>\<open>Deserialize\<close> returns \<open>UnresolvedDevice\<close> for an id of the message that has
  no resolution; it returns no program, so no program with a null or garbage handle.
\<close>

theorem Deserialize_unresolved_device:
  assumes parse: "parse_from_string serialized = Some proto"
    and ref: "device_id \<in> referenced_device_ids proto"
    and unres: "lookup device_id = None"
  shows "\<exists>unresolved.
           unresolved \<in> referenced_device_ids proto \<and> lookup unresolved = None \<and>
           IoCallableProgramSerDes_Deserialize parse_from_string DeviceList_FromProto
             ArraySpec_FromProto serialized (Some (DeserializeProgramOptions lookup)) =
           Returned (Inl (UnresolvedDevice unresolved))"
proof -
  let ?D = "IoCallableProgramSerDes_Deserialize parse_from_string DeviceList_FromProto
             ArraySpec_FromProto serialized (Some (DeserializeProgramOptions lookup))"
  note run = Deserialize_after_parse
    [where parse_from_string = parse_from_string and serialized = serialized, OF parse]
  show ?thesis
  proof (cases "DeviceList_FromProto lookup (proto_devices proto)")
    case (Inl st)
    then obtain u where "u \<in> set (device_ids (proto_devices proto))"
      and "lookup u = None" and "st = UnresolvedDevice u"
      using DeviceList_FromProto_Inl by blast
    moreover have "?D = Returned (Inl st)"
      unfolding run using Inl by simp
    ultimately show ?thesis
      by (auto simp: referenced_device_ids_def)
  next
    case devs: (Inr devs)
    show ?thesis
    proof (cases "assign_or_return_each (ArraySpec_FromProto lookup) []
                    (proto_input_specs proto)")
      case (Inl st)
      then obtain spec u where "spec \<in> set (proto_input_specs proto)"
        and "u \<in> set (device_ids (proto_sharding spec))"
        and "lookup u = None" and "st = UnresolvedDevice u"
        using specs_FromProto_Inl by blast
      moreover have "?D = Returned (Inl st)"
        unfolding run using devs Inl by simp
      ultimately show ?thesis
        by (auto simp: referenced_device_ids_def)
    next
      case ins: (Inr ins)
      show ?thesis
      proof (cases "assign_or_return_each (ArraySpec_FromProto lookup) []
                      (proto_output_specs proto)")
        case (Inl st)
        then obtain spec u where "spec \<in> set (proto_output_specs proto)"
          and "u \<in> set (device_ids (proto_sharding spec))"
          and "lookup u = None" and "st = UnresolvedDevice u"
          using specs_FromProto_Inl by blast
        moreover have "?D = Returned (Inl st)"
          unfolding run using devs ins Inl by simp
        ultimately show ?thesis
          by (auto simp: referenced_device_ids_def)
      next
        case outs: (Inr outs)
        from ref consider
            "device_id \<in> set (device_ids (proto_devices proto))"
          | spec where "spec \<in> set (proto_input_specs proto)"
              "device_id \<in> set (device_ids (proto_sharding spec))"
          | spec where "spec \<in> set (proto_output_specs proto)"
              "device_id \<in> set (device_ids (proto_sharding spec))"
          by (auto simp: referenced_device_ids_def)
        then have "\<exists>device. lookup device_id = Some device"
        proof cases
          case 1
          with devs show ?thesis by (rule DeviceList_FromProto_resolved)
        next
          case 2
          with ins show ?thesis by (rule specs_FromProto_resolved)
        next
          case 3
          with outs show ?thesis by (rule specs_FromProto_resolved)
        qed
        with unres show ?thesis by simp
      qed
    qed
  qed
qed

text \<open>
  With options that resolve device \<open>0\<close> only, the program on devices \<open>0\<close> and \<open>1\<close> fails on \<open>1\<close>.
\<close>

theorem Deserialize_unresolved_device_witness:
  "IoCallableProgramSerDes_Deserialize ParseFromString DeviceList_FromProto
     ArraySpec_FromProto
     [CHR 0x02, CHR ''i'', CHR ''o'', CHR 0x01, CHR ''f'', CHR 0x01, CHR ''x'',
      CHR 0x02, CHR 0x00, CHR 0x02, CHR 0x01, CHR 0x03, CHR ''s'', CHR ''3'',
      CHR ''2'', CHR 0x01, CHR 0x04, CHR 0x02, CHR 0x00, CHR 0x02, CHR 0x00]
     (Some (DeserializeProgramOptions [0 \<mapsto> Device 0 4096])) =
   Returned (Inl (UnresolvedDevice 1))"
proof -
  let ?proto = "\<lparr>proto_type = ''io'', proto_name = ''f'',
      proto_serialized_program_text = ''x'', proto_devices = DeviceListProto [0, 1],
      proto_input_specs = [\<lparr>proto_dtype = ''s32'', proto_shape = [2],
                              proto_sharding = DeviceListProto [0, 1]\<rparr>],
      proto_output_specs = []\<rparr>"
  let ?bytes = "[CHR 0x02, CHR ''i'', CHR ''o'', CHR 0x01, CHR ''f'', CHR 0x01, CHR ''x'',
        CHR 0x02, CHR 0x00, CHR 0x02, CHR 0x01, CHR 0x03, CHR ''s'', CHR ''3'',
        CHR ''2'', CHR 0x01, CHR 0x04, CHR 0x02, CHR 0x00, CHR 0x02, CHR 0x00]"
  let ?lookup = "[0 \<mapsto> Device 0 4096] :: LookupDeviceFunc"
  have parse: "ParseFromString ?bytes = Some ?proto"
    by code_simp
  have refs: "referenced_device_ids ?proto = {0, 1}"
    by (auto simp: referenced_device_ids_def)
  then have ref: "1 \<in> referenced_device_ids ?proto"
    by simp
  have unres: "?lookup 1 = None"
    by simp
  from Deserialize_unresolved_device
      [where parse_from_string = ParseFromString and serialized = ?bytes
         and lookup = ?lookup, OF parse ref unres]
  obtain unresolved where
    u: "unresolved \<in> referenced_device_ids ?proto" "?lookup unresolved = None" and
    res: "IoCallableProgramSerDes_Deserialize ParseFromString DeviceList_FromProto
            ArraySpec_FromProto ?bytes (Some (DeserializeProgramOptions ?lookup)) =
          Returned (Inl (UnresolvedDevice unresolved))"
    by blast
  from u refs have "unresolved = 1"
    by (auto split: if_splits)
  with res show ?thesis by simp
qed

section \<open>Properties of \<^verbatim>\<open>register_plugin_profiler\<close>\<close>

text \<open>
  For a capsule that carries a name other than \<^verbatim>\<open>pjrt_c_api\<close>,
  \<^verbatim>\<open>register_plugin_profiler\<close> throws \<^verbatim>\<open>XlaRuntimeError\<close> and has done nothing
  else: the capsule's data pointer is not read and no profiler factory is registered.
\<close>

lemma register_plugin_profiler_named:
  assumes "capsule_name c_api = Some c_api_name"
    and "c_api_name \<noteq> ''pjrt_c_api''"
  shows "register_plugin_profiler c_api =
           (Raised (XlaRuntimeError
              ''Argument to register_plugin_profiler was not a pjrt_c_api capsule.''), [])"
  using assms by (simp add: register_plugin_profiler_def)

text \<open>
  C10 asks for \<^verbatim>\<open>XlaRuntimeError\<close> whenever the name of the capsule is not exactly
  \<^verbatim>\<open>pjrt_c_api\<close>. A capsule made without a name is such a capsule, and a caller can
  pass one. Its \<^verbatim>\<open>name()\<close> is null, line 149 builds a \<^verbatim>\<open>std::string_view\<close> from
  the null pointer, and the call ends there: nothing is thrown. The guard misses this
  case.
\<close>

theorem register_plugin_profiler_unnamed_capsule:
  "register_plugin_profiler
     \<lparr>capsule_name = None,
      capsule_data = \<lparr>extension_start =
        [\<lparr>extension_type = PJRT_Extension_Type_Profiler, profiler_api = Some 64\<rparr>]\<rparr>\<rparr> =
   (NullNameView, [])
   \<and> capsule_name
       \<lparr>capsule_name = None,
        capsule_data = \<lparr>extension_start =
          [\<lparr>extension_type = PJRT_Extension_Type_Profiler, profiler_api = Some 64\<rparr>]\<rparr>\<rparr> \<noteq>
     Some ''pjrt_c_api''
   \<and> (\<forall>message.
        fst (register_plugin_profiler
          \<lparr>capsule_name = None,
           capsule_data = \<lparr>extension_start =
             [\<lparr>extension_type = PJRT_Extension_Type_Profiler,
               profiler_api = Some 64\<rparr>]\<rparr>\<rparr>) \<noteq>
        Raised (XlaRuntimeError message))"
  by (simp add: register_plugin_profiler_def)

section \<open>Properties of ahead-of-time compilation and loading\<close>

text \<open>
  Loading the bytes that \<^verbatim>\<open>SerializeExecutable\<close> wrote is loading the executable.
\<close>

lemma LoadSerialized_SerializeExecutable:
  "LoadSerialized format_version (SerializeExecutable format_version executable) client =
     Load executable client"
proof (cases executable)
  case (fields code target)
  have "read_string (write_string code) = Some (code, [])"
    using read_write_string [of code "[]"] by simp
  then show ?thesis
    by (simp add: fields LoadSerialized_def SerializeExecutable_def read_write_string)
qed

text \<open>
  C7. \<^verbatim>\<open>Compile\<close> accepts an absent client: with no client it returns what it returns
  with any client, and it returns an executable whenever the backend lowers the program.
  That executable loads from its serialized bytes alone on a client whose live target
  matches the target description of the compilation: the load succeeds and binds the
  compiled code, with no access to the lowering.
\<close>

theorem aot_executable_loads_from_bytes:
  "Compile lower options source_program target_description (None :: 'client option) =
     Compile lower options source_program target_description (Some (any_client :: 'client))
   \<and> (lower options source_program target_description = Inr code \<longrightarrow>
        live_target client = target_description \<longrightarrow>
        (\<exists>executable.
           Compile lower options source_program target_description (None :: 'client option) =
             Inr executable
           \<and> LoadSerialized format_version
               (SerializeExecutable format_version executable) client =
             Inr \<lparr>loaded_code = code, bound_devices = live_devices client\<rparr>))"
proof -
  have "Compile lower options source_program target_description (None :: 'client option) =
          Compile lower options source_program target_description (Some any_client)"
    by (simp add: Compile_def)
  moreover have "LoadSerialized format_version
           (SerializeExecutable format_version
              \<lparr>machine_code = code, captured_target = target_description\<rparr>) client =
         Inr \<lparr>loaded_code = code, bound_devices = live_devices client\<rparr>"
    if "live_target client = target_description"
    using that by (simp add: LoadSerialized_SerializeExecutable Load_def)
  ultimately show ?thesis
    by (simp add: Compile_def)
qed

text \<open>
  A backend that lowers every program, the target \<^verbatim>\<open>sm_90\<close> and a client with one
  device of that target.
\<close>

theorem aot_executable_loads_from_bytes_witness:
  "Compile (\<lambda>(options :: unit) program target. Inr (''lowered '' @ program))
     () ''main'' ''sm_90'' (None :: unit option) =
   Inr \<lparr>machine_code = ''lowered main'', captured_target = ''sm_90''\<rparr>
   \<and> LoadSerialized ''v1''
       (SerializeExecutable ''v1''
          \<lparr>machine_code = ''lowered main'', captured_target = ''sm_90''\<rparr>)
       \<lparr>live_target = ''sm_90'', live_devices = [0 :: nat]\<rparr> =
     Inr \<lparr>loaded_code = ''lowered main'', bound_devices = [0 :: nat]\<rparr>"
proof -
  let ?lower = "\<lambda>(options :: unit) program (target :: TargetDescription).
                  Inr (''lowered '' @ program) :: Error + string"
  let ?client = "\<lparr>live_target = ''sm_90'', live_devices = [0 :: nat]\<rparr>"
  have compiled: "Compile ?lower () ''main'' ''sm_90'' (None :: unit option) =
                    Inr \<lparr>machine_code = ''lowered main'', captured_target = ''sm_90''\<rparr>"
    by (simp add: Compile_def)
  have lowered: "?lower () ''main'' ''sm_90'' = Inr ''lowered main''"
    by simp
  have matching: "live_target ?client = ''sm_90''"
    by simp
  have "?lower () ''main'' ''sm_90'' = Inr ''lowered main'' \<longrightarrow>
        live_target ?client = ''sm_90'' \<longrightarrow>
        (\<exists>executable.
           Compile ?lower () ''main'' ''sm_90'' (None :: unit option) = Inr executable
           \<and> LoadSerialized ''v1'' (SerializeExecutable ''v1'' executable) ?client =
             Inr \<lparr>loaded_code = ''lowered main'', bound_devices = live_devices ?client\<rparr>)"
    using aot_executable_loads_from_bytes
      [where lower = ?lower and options = "()" and source_program = "''main''"
         and target_description = "''sm_90''" and code = "''lowered main''"
         and client = ?client and format_version = "''v1''" and any_client = "()"]
    by (rule conjunct2)
  then obtain executable where
    exe: "Compile ?lower () ''main'' ''sm_90'' (None :: unit option) = Inr executable" and
    loaded: "LoadSerialized ''v1'' (SerializeExecutable ''v1'' executable) ?client =
       Inr \<lparr>loaded_code = ''lowered main'', bound_devices = live_devices ?client\<rparr>"
    using lowered matching by blast
  from exe compiled have "executable =
      \<lparr>machine_code = ''lowered main'', captured_target = ''sm_90''\<rparr>"
    by simp
  with loaded compiled show ?thesis by simp
qed

end
